theory Spec2Isabelle
  imports Main "HOL-Library.Word" "HOL-Library.Signed_Division"
begin

section \<open>Data model of package chaincfg (params.go)\<close>

type_synonym byte = "8 word"
type_synonym uint32 = "32 word"
type_synonym int32 = "32 word"
type_synonym int64 = "64 word"

text \<open>
  A Go \<^verbatim>\<open>[4]byte\<close> array is a 4-tuple of bytes; \<^verbatim>\<open>a[:]\<close> is the slice of its
  four elements and \<^verbatim>\<open>copy(a[:], s)\<close> fills the array from a slice (missing
  positions keep the zero value).
\<close>

type_synonym byte4 = "byte \<times> byte \<times> byte \<times> byte"

fun slice4 :: "byte4 \<Rightarrow> byte list" where
  "slice4 (a, b, c, d) = [a, b, c, d]"

definition elemOr0 :: "byte list \<Rightarrow> nat \<Rightarrow> byte" where
  "elemOr0 s i = (if i < length s then s ! i else 0)"

definition copy4 :: "byte list \<Rightarrow> byte4" where
  "copy4 s = (elemOr0 s 0, elemOr0 s 1, elemOr0 s 2, elemOr0 s 3)"

text \<open>
  The error values of the package, and the two kinds of failure of the header
  store (seek or read failure, malformed bytes).
\<close>

datatype error =
    ErrDuplicateNet
  | ErrUnknownHDKeyID
  | ErrInvalidHDKeyID
  | IOError
  | DeserializeError

text \<open>
  \<^verbatim>\<open>Params\<close>: the fields read by the difficulty functions and by the registry.
  \<^verbatim>\<open>time.Duration\<close> is an \<^verbatim>\<open>int64\<close> count of nanoseconds, \<^verbatim>\<open>*big.Int\<close> an
  unbounded integer, \<^verbatim>\<open>wire.BitcoinNet\<close> a \<^verbatim>\<open>uint32\<close>.
\<close>

record Params =
  Name :: string
  Net :: uint32
  PowLimit :: int
  PowLimitBits :: uint32
  TargetTimespan :: int64
  TargetTimePerBlock :: int64
  RetargetAdjustmentFactor :: int64
  ReduceMinDifficulty :: bool
  MinDiffReductionTime :: int64
  Bech32HRPSegwit :: string
  PubKeyHashAddrID :: byte
  ScriptHashAddrID :: byte
  HDPrivateKeyID :: byte4
  HDPublicKeyID :: byte4

section \<open>The registry of networks\<close>

text \<open>
  The package-level maps. A \<^verbatim>\<open>map[K]struct{}\<close> is a set of keys.
\<close>

record Registry =
  registeredNets :: "uint32 set"
  pubKeyHashAddrIDs :: "byte set"
  scriptHashAddrIDs :: "byte set"
  bech32SegwitPrefixes :: "string set"
  hdPrivToPubKeyIDs :: "byte4 \<rightharpoonup> byte list"

definition RegisterHDKeyID :: "Registry \<Rightarrow> byte list \<Rightarrow> byte list \<Rightarrow> error option \<times> Registry" where
  "RegisterHDKeyID st hdPublicKeyID hdPrivateKeyID =
     (if length hdPublicKeyID \<noteq> 4 \<or> length hdPrivateKeyID \<noteq> 4
      then (Some ErrInvalidHDKeyID, st)
      else (None, st\<lparr>hdPrivToPubKeyIDs :=
                       (hdPrivToPubKeyIDs st)(copy4 hdPrivateKeyID \<mapsto> hdPublicKeyID)\<rparr>))"

definition Register :: "Registry \<Rightarrow> Params \<Rightarrow> error option \<times> Registry" where
  "Register st params =
     (if Net params \<in> registeredNets st then (Some ErrDuplicateNet, st)
      else
        let st1 = st\<lparr>registeredNets := insert (Net params) (registeredNets st)\<rparr>;
            st2 = st1\<lparr>pubKeyHashAddrIDs :=
                        insert (PubKeyHashAddrID params) (pubKeyHashAddrIDs st1)\<rparr>;
            st3 = st2\<lparr>scriptHashAddrIDs :=
                        insert (ScriptHashAddrID params) (scriptHashAddrIDs st2)\<rparr>
        in case RegisterHDKeyID st3 (slice4 (HDPublicKeyID params))
                  (slice4 (HDPrivateKeyID params)) of
             (Some err, st4) \<Rightarrow> (Some err, st4)
           | (None, st4) \<Rightarrow>
               (None, st4\<lparr>bech32SegwitPrefixes :=
                            insert (Bech32HRPSegwit params @ ''1'')
                              (bech32SegwitPrefixes st4)\<rparr>))"

text \<open>The result is the pair of the Go function: the slice (nil is \<open>[]\<close>) and the error.\<close>

definition HDPrivateKeyToPublicKeyID :: "Registry \<Rightarrow> byte list \<Rightarrow> byte list \<times> error option" where
  "HDPrivateKeyToPublicKeyID st ident =
     (if length ident \<noteq> 4 then ([], Some ErrUnknownHDKeyID)
      else case hdPrivToPubKeyIDs st (copy4 ident) of
             None \<Rightarrow> ([], Some ErrUnknownHDKeyID)
           | Some pubBytes \<Rightarrow> (pubBytes, None))"

text \<open>The registry before any registration.\<close>

definition emptyRegistry :: Registry where
  "emptyRegistry = \<lparr>registeredNets = {}, pubKeyHashAddrIDs = {}, scriptHashAddrIDs = {},
     bech32SegwitPrefixes = {}, hdPrivToPubKeyIDs = Map.empty\<rparr>"

section \<open>Go arithmetic\<close>

text \<open>
  A function of the package returns its values, or the run-time panics (integer
  division by zero, \<^verbatim>\<open>big.Int.Div\<close> by zero).
\<close>

datatype 'a exec = Returns 'a | Panics

text \<open>
  \<^verbatim>\<open>x / y\<close> on \<^verbatim>\<open>int64\<close> and \<^verbatim>\<open>x % y\<close> on \<^verbatim>\<open>int32\<close> truncate towards zero and
  wrap around; the callers test \<open>y = 0\<close> first, where Go panics.
\<close>

definition quo64 :: "int64 \<Rightarrow> int64 \<Rightarrow> int64" where
  "quo64 x y = word_of_int (sint x sdiv sint y)"

definition rem32 :: "int32 \<Rightarrow> int32 \<Rightarrow> int32" where
  "rem32 x y = word_of_int (sint x smod sint y)"

text \<open>
  \<^verbatim>\<open>big.Int.Div\<close> is Euclidean division: the remainder is never negative. The
  callers test \<open>y = 0\<close> first.
\<close>

definition bigDiv :: "int \<Rightarrow> int \<Rightarrow> int" where
  "bigDiv x y = (if 0 < y then x div y else - (x div (- y)))"

text \<open>
  The floating-point computations of the package are parameters of the model:
  \<^item> \<open>durationSeconds d\<close> is \<^verbatim>\<open>int64(d.Seconds())\<close>, where \<^verbatim>\<open>Seconds\<close> is a
    \<^verbatim>\<open>float64\<close>;
  \<^item> \<open>horizonReached blocksScanned actualRate targetRate\<close> is the test
    \<^verbatim>\<open>rateAdjustmentRatio <= eventHorizonDevationSlow || rateAdjustmentRatio >= eventHorizonDeviationFast\<close>
    of the gravity well, whose operands are computed with \<^verbatim>\<open>float64\<close> division
    and \<^verbatim>\<open>math.Pow\<close> from these three integers.
\<close>

record GoFloat =
  durationSeconds :: "int64 \<Rightarrow> int64"
  horizonReached :: "int \<Rightarrow> int64 \<Rightarrow> int64 \<Rightarrow> bool"

text \<open>
  For a duration of a whole number of seconds the \<^verbatim>\<open>float64\<close> is exact and
  \<^verbatim>\<open>int64(d.Seconds())\<close> is \<^verbatim>\<open>d / time.Second\<close>. \<open>wholeSeconds h\<close> is used to
  evaluate the functions on such parameters.
\<close>

definition wholeSeconds :: "(int \<Rightarrow> int64 \<Rightarrow> int64 \<Rightarrow> bool) \<Rightarrow> GoFloat" where
  "wholeSeconds h = \<lparr>durationSeconds = (\<lambda>d. quo64 d 1000000000), horizonReached = h\<rparr>"

section \<open>Block headers and the header store\<close>

text \<open>
  \<^verbatim>\<open>wire.BlockHeader\<close>. The \<^verbatim>\<open>time.Time\<close> of the timestamp is its number of
  nanoseconds since the Unix epoch.
\<close>

record BlockHeader =
  Version :: int32
  PrevBlock :: "byte list"
  MerkleRoot :: "byte list"
  Timestamp :: int
  Bits :: uint32
  Nonce :: uint32

definition UnixNano :: "int \<Rightarrow> int64" where
  "UnixNano t = word_of_int t"

definition Unix :: "int \<Rightarrow> int64" where
  "Unix t = word_of_int (t div 1000000000)"

text \<open>
  \<^verbatim>\<open>io.ReadSeeker\<close> is an interface: the model takes its implementation as a
  record of functions over the state \<open>'s\<close> of the reader. \<open>Seek r off\<close> is
  \<^verbatim>\<open>r.Seek(off, os.SEEK_SET)\<close>, \<open>Deserialize r\<close> is \<^verbatim>\<open>h.Deserialize(r)\<close> of package
  wire, which reads the next 80 bytes. Both fail with an error or return the
  reader in its new state.
\<close>

record 's ReadSeeker =
  Seek :: "'s \<Rightarrow> int \<Rightarrow> error + 's"
  Deserialize :: "'s \<Rightarrow> error + BlockHeader \<times> 's"

text \<open>
  The pair of statements every function below repeats: seek, return the error
  if any; deserialize, return the error if any.
\<close>

definition readHeaderAt :: "'s ReadSeeker \<Rightarrow> 's \<Rightarrow> int \<Rightarrow> error + BlockHeader \<times> 's" where
  "readHeaderAt rs r off =
     (case Seek rs r off of
        Inl err \<Rightarrow> Inl err
      | Inr r' \<Rightarrow> Deserialize rs r')"

section \<open>The compact encoding of targets\<close>

text \<open>
  Modelled from the spec: \<^verbatim>\<open>difficulty.CompactToBig\<close> and
  \<^verbatim>\<open>difficulty.BigToCompact\<close> (package chaincfg/difficulty) are not among the
  sources. The compact form is one exponent byte (the number of significant
  bytes) and three mantissa bytes, the high bit of the first mantissa byte
  being the sign. Decoding shifts the 23-bit mantissa by \<open>exponent - 3\<close> bytes;
  encoding keeps the three most significant bytes, and when that would set the
  sign bit it drops the lowest of them and counts one byte more. The exponent
  is stored in eight bits.
\<close>

fun byteLen :: "nat \<Rightarrow> nat" where
  "byteLen n = (if n = 0 then 0 else Suc (byteLen (n div 256)))"

declare byteLen.simps [simp del]

text \<open>The magnitude that exponent \<open>e\<close> and mantissa \<open>m\<close> stand for.\<close>

definition shiftMantissa :: "nat \<Rightarrow> nat \<Rightarrow> nat" where
  "shiftMantissa e m = (if e \<le> 3 then m div 256 ^ (3 - e) else m * 256 ^ (e - 3))"

definition CompactToBig :: "uint32 \<Rightarrow> int" where
  "CompactToBig compact =
     (let c = unat compact;
          mantissa = c mod 2 ^ 23;
          isNegative = ((c div 2 ^ 23) mod 2 = 1);
          exponent = c div 2 ^ 24;
          bn = shiftMantissa exponent mantissa
      in if isNegative then - int bn else int bn)"

text \<open>The 32 bits of the encoding of a magnitude \<open>a > 0\<close> and a sign, before truncation to \<^verbatim>\<open>uint32\<close>.\<close>

definition encodeCompact :: "nat \<Rightarrow> bool \<Rightarrow> nat" where
  "encodeCompact a negative =
     (let exponent = byteLen a;
          mantissa = (if exponent \<le> 3 then a * 256 ^ (3 - exponent)
                      else a div 256 ^ (exponent - 3));
          signBitSet = (2 ^ 23 \<le> mantissa);
          mantissa' = (if signBitSet then mantissa div 256 else mantissa);
          exponent' = (if signBitSet then exponent + 1 else exponent)
      in exponent' * 2 ^ 24 + (if negative then 2 ^ 23 else 0) + mantissa')"

definition BigToCompact :: "int \<Rightarrow> uint32" where
  "BigToCompact n = (if n = 0 then 0 else word_of_nat (encodeCompact (nat \<bar>n\<bar>) (n < 0)))"



section \<open>Algorithm A: calcDiffAdjustBitcoin\<close>

definition minRetargetTimespan :: "GoFloat \<Rightarrow> Params \<Rightarrow> int64" where
  "minRetargetTimespan fl p =
     quo64 (durationSeconds fl (TargetTimespan p)) (RetargetAdjustmentFactor p)"

definition maxRetargetTimespan :: "GoFloat \<Rightarrow> Params \<Rightarrow> int64" where
  "maxRetargetTimespan fl p =
     durationSeconds fl (TargetTimespan p) * RetargetAdjustmentFactor p"

text \<open>The local variable \<^verbatim>\<open>duration\<close> after the two comparisons.\<close>

definition clampedDuration :: "GoFloat \<Rightarrow> BlockHeader \<Rightarrow> BlockHeader \<Rightarrow> Params \<Rightarrow> int64" where
  "clampedDuration fl start end p =
     (let duration = UnixNano (Timestamp end) - UnixNano (Timestamp start)
      in if duration <s minRetargetTimespan fl p then minRetargetTimespan fl p
         else if maxRetargetTimespan fl p <s duration then maxRetargetTimespan fl p
         else duration)"

definition calcDiffAdjustBitcoin :: "GoFloat \<Rightarrow> BlockHeader \<Rightarrow> BlockHeader \<Rightarrow> Params \<Rightarrow> uint32 exec" where
  "calcDiffAdjustBitcoin fl start end p =
     (if RetargetAdjustmentFactor p = 0 then Panics
      else
        let duration = clampedDuration fl start end p;
            prevTarget = CompactToBig (Bits start);
            newTarget = prevTarget * sint duration;
            timespan = quo64 (TargetTimespan p) 1000000000
        in if timespan = 0 then Panics
           else
             let newTarget = bigDiv newTarget (sint timespan);
                 powLimit = CompactToBig (PowLimitBits p);
                 newTarget = (if powLimit < newTarget then powLimit else newTarget)
             in Returns (BigToCompact newTarget))"

section \<open>Algorithms B and C: BTCDiff and LTCDiff\<close>

definition epochLengthOf :: "Params \<Rightarrow> int32" where
  "epochLengthOf p = ucast (quo64 (TargetTimespan p) (TargetTimePerBlock p))"

text \<open>The branch \<^verbatim>\<open>else { // not a new epoch\<close> of both functions.\<close>

definition notNewEpoch :: "BlockHeader \<Rightarrow> BlockHeader \<Rightarrow> BlockHeader \<Rightarrow> Params \<Rightarrow> uint32" where
  "notNewEpoch cur prev epochStart p =
     (if ReduceMinDifficulty p \<and>
         Timestamp prev + sint (TargetTimePerBlock p * 2) < Timestamp cur
      then PowLimitBits p
      else Bits epochStart)"

definition BTCDiff :: "GoFloat \<Rightarrow> 's ReadSeeker \<Rightarrow> 's \<Rightarrow> int32 \<Rightarrow> int32 \<Rightarrow> Params \<Rightarrow> (uint32 \<times> error option) exec" where
  "BTCDiff fl rs r height startheight p =
     (if TargetTimePerBlock p = 0 then Panics
      else
        let epochLength = epochLengthOf p;
            offsetHeight = height - startheight
        in case readHeaderAt rs r (sint (80 * (offsetHeight - 1))) of
             Inl err \<Rightarrow> Returns (0, Some err)
           | Inr (prev, r1) \<Rightarrow>
         (case readHeaderAt rs r1 (sint (80 * offsetHeight)) of
             Inl err \<Rightarrow> Returns (0, Some err)
           | Inr (cur, r2) \<Rightarrow>
         if epochLength = 0 then Panics
         else
         (case readHeaderAt rs r2 (sint (80 * (offsetHeight - rem32 height epochLength))) of
             Inl err \<Rightarrow> Returns (0, Some err)
           | Inr (epochStart, r3) \<Rightarrow>
         if rem32 height epochLength = 0
         then (case calcDiffAdjustBitcoin fl epochStart prev p of
                 Panics \<Rightarrow> Panics
               | Returns rightBits \<Rightarrow> Returns (rightBits, None))
         else Returns (notNewEpoch cur prev epochStart p, None))))"

definition LTCDiff :: "GoFloat \<Rightarrow> 's ReadSeeker \<Rightarrow> 's \<Rightarrow> int32 \<Rightarrow> int32 \<Rightarrow> Params \<Rightarrow> (uint32 \<times> error option) exec" where
  "LTCDiff fl rs r height startheight p =
     (if TargetTimePerBlock p = 0 then Panics
      else
        let epochLength = epochLengthOf p;
            offsetHeight = height - startheight
        in case readHeaderAt rs r (sint (80 * (offsetHeight - 1))) of
             Inl err \<Rightarrow> Returns (0, Some err)
           | Inr (prev, r1) \<Rightarrow>
         (case readHeaderAt rs r1 (sint (80 * offsetHeight)) of
             Inl err \<Rightarrow> Returns (0, Some err)
           | Inr (cur, r2) \<Rightarrow>
         if epochLength = 0 then Panics
         else
         (case readHeaderAt rs r2 (sint (80 * (offsetHeight - rem32 height epochLength))) of
             Inl err \<Rightarrow> Returns (0, Some err)
           | Inr (epochStart, r3) \<Rightarrow>
         if rem32 height epochLength = 0
         then (case readHeaderAt rs r3
                      (if height = epochLength then 0 else sint (offsetHeight - epochLength)) of
                 Inl err \<Rightarrow> Returns (0, Some err)
               | Inr (epochStart, r4) \<Rightarrow>
                 (case calcDiffAdjustBitcoin fl epochStart prev p of
                    Panics \<Rightarrow> Panics
                  | Returns rightBits \<Rightarrow> Returns (rightBits, None)))
         else Returns (notNewEpoch cur prev epochStart p, None))))"

section \<open>Algorithm D: calcDiffAdjustKGW\<close>

text \<open>
  The variables of the scan that live across its iterations. \<^verbatim>\<open>i\<close> runs from
  1 to at most 4033 and \<^verbatim>\<open>blocksScanned\<close> from 0 to at most 4032: they are
  integers here.
\<close>

record 's KGW =
  reader :: 's
  currentBlock :: BlockHeader
  currentHeight :: int32
  idx :: int
  blocksScanned :: int
  difficultyAverage :: int
  previousDifficultyAverage :: int
  actualRate :: int64
  targetRate :: int64

definition minBlocks :: int where
  "minBlocks = 144"

definition maxBlocks :: int where
  "maxBlocks = 4032"

text \<open>
  The body of the loop from \<^verbatim>\<open>blocksScanned++\<close> to the clamping of
  \<^verbatim>\<open>actualRate\<close>: the new values of the variables. (\<^verbatim>\<open>i\<close> is not 0 here, see
  \<open>kgwScan\<close>.)
\<close>

definition kgwBody :: "GoFloat \<Rightarrow> Params \<Rightarrow> BlockHeader \<Rightarrow> 's KGW \<Rightarrow> 's KGW" where
  "kgwBody fl p lastSolved st =
     (let scanned = blocksScanned st + 1;
          compact = CompactToBig (Bits (currentBlock st));
          average = (if idx st = 1 then compact
                     else bigDiv (compact - previousDifficultyAverage st) (idx st)
                          + previousDifficultyAverage st);
          rate = Unix (Timestamp lastSolved) - Unix (Timestamp (currentBlock st));
          target = durationSeconds fl (TargetTimePerBlock p) * word_of_int scanned;
          rate = (if rate <s 0 then 0 else rate)
      in st\<lparr>blocksScanned := scanned, difficultyAverage := average,
             previousDifficultyAverage := average,
             actualRate := rate, targetRate := target\<rparr>)"

text \<open>
  The \<^verbatim>\<open>for\<close> loop from the test of its condition on. It ends with the
  variables at the \<^verbatim>\<open>break\<close> (or at the false condition), or with the error
  that the function returns from inside the loop; \<^verbatim>\<open>big.Int.Div\<close> by \<^verbatim>\<open>i\<close> panics
  when \<^verbatim>\<open>i\<close> is 0.
\<close>

function kgwScan :: "GoFloat \<Rightarrow> 's ReadSeeker \<Rightarrow> int32 \<Rightarrow> Params \<Rightarrow> BlockHeader \<Rightarrow> 's KGW \<Rightarrow> (error + 's KGW) exec" where
  "kgwScan fl rs startheight p lastSolved st =
     (if currentHeight st = 1 then Returns (Inr st)
      else if maxBlocks < idx st then Returns (Inr st)
      else if idx st = 0 then Panics
      else
        let st1 = kgwBody fl p lastSolved st
        in if minBlocks \<le> blocksScanned st1 \<and>
              horizonReached fl (blocksScanned st1) (actualRate st1) (targetRate st1)
           then Returns (Inr st1)
           else if currentHeight st <s 1 then Returns (Inr st1)
           else
             (case readHeaderAt rs (reader st)
                     (sint (80 * (currentHeight st - 1 - startheight))) of
                Inl err \<Rightarrow> Returns (Inl err)
              | Inr (h, r') \<Rightarrow>
                  kgwScan fl rs startheight p lastSolved
                    (st1\<lparr>currentHeight := currentHeight st - 1, reader := r',
                         currentBlock := h, idx := idx st + 1\<rparr>)))"
  by pat_completeness auto
termination
  by (relation "measure (\<lambda>(fl, rs, startheight, p, lastSolved, st). nat (maxBlocks + 1 - idx st))")
     (auto simp: kgwBody_def Let_def)

declare kgwScan.simps [simp del]

definition calcDiffAdjustKGW :: "GoFloat \<Rightarrow> 's ReadSeeker \<Rightarrow> 's \<Rightarrow> int32 \<Rightarrow> int32 \<Rightarrow> Params \<Rightarrow> (uint32 \<times> error option) exec" where
  "calcDiffAdjustKGW fl rs r height startheight p =
     (if sint (height - 1) < minBlocks then Returns (PowLimitBits p, None)
      else
        let offsetHeight = height - startheight - 1
        in case readHeaderAt rs r (sint (80 * offsetHeight)) of
             Inl err \<Rightarrow> Returns (0, Some err)
           | Inr (block, r1) \<Rightarrow>
         (case kgwScan fl rs startheight p block
                 \<lparr>reader = r1, currentBlock = block, currentHeight = height - 1, idx = 1,
                  blocksScanned = 0, difficultyAverage = 0, previousDifficultyAverage = 0,
                  actualRate = 0, targetRate = 0\<rparr> of
             Panics \<Rightarrow> Panics
           | Returns (Inl err) \<Rightarrow> Returns (0, Some err)
           | Returns (Inr st) \<Rightarrow>
               let newTarget = difficultyAverage st;
                   newTarget = (if actualRate st \<noteq> 0 \<and> targetRate st \<noteq> 0
                                then bigDiv (newTarget * sint (actualRate st))
                                       (sint (targetRate st))
                                else newTarget);
                   newTarget = (if PowLimit p < newTarget then PowLimit p else newTarget)
               in Returns (BigToCompact newTarget, None)))"

section \<open>Algorithm E: VTCTestDiff\<close>

definition VTCTestDiff :: "GoFloat \<Rightarrow> 's ReadSeeker \<Rightarrow> 's \<Rightarrow> int32 \<Rightarrow> int32 \<Rightarrow> Params \<Rightarrow> (uint32 \<times> error option) exec" where
  "VTCTestDiff fl rs r height startheight p =
     (if height <s 2116 then LTCDiff fl rs r height startheight p
      else
        let offsetHeight = height - startheight
        in if rem32 height 12 \<noteq> 0
           then (case readHeaderAt rs r (sint (80 * (offsetHeight - 1))) of
                   Inl err \<Rightarrow> Returns (0, Some err)
                 | Inr (prev, r1) \<Rightarrow> Returns (Bits prev, None))
           else calcDiffAdjustKGW fl rs r height startheight p)"

section \<open>A header store in a file, and test data\<close>

text \<open>
  Modelled from the spec: the header store (package wire and the file behind
  the \<^verbatim>\<open>io.ReadSeeker\<close> are not among the sources). Headers are 80 bytes
  each, stored contiguously: a 4-byte version, the 32-byte previous hash, the
  32-byte merkle root, then timestamp (seconds), bits and nonce of 4 bytes
  each, all little-endian. A seek to a negative offset fails, and so does a
  read of 80 bytes that passes the end of the file. The state of the reader
  is its position.
\<close>

record File =
  fileSize :: nat
  byteAt :: "nat \<Rightarrow> byte"

definition le32 :: "byte \<Rightarrow> byte \<Rightarrow> byte \<Rightarrow> byte \<Rightarrow> uint32" where
  "le32 b0 b1 b2 b3 =
     word_of_nat (unat b0 + 256 * unat b1 + 65536 * unat b2 + 16777216 * unat b3)"

definition parseHeaderAt :: "File \<Rightarrow> nat \<Rightarrow> BlockHeader" where
  "parseHeaderAt f pos =
     \<lparr>Version = le32 (byteAt f pos) (byteAt f (pos + 1)) (byteAt f (pos + 2)) (byteAt f (pos + 3)),
      PrevBlock = map (byteAt f) [pos + 4 ..< pos + 36],
      MerkleRoot = map (byteAt f) [pos + 36 ..< pos + 68],
      Timestamp = 1000000000 * uint (le32 (byteAt f (pos + 68)) (byteAt f (pos + 69))
                                        (byteAt f (pos + 70)) (byteAt f (pos + 71))),
      Bits = le32 (byteAt f (pos + 72)) (byteAt f (pos + 73))
                  (byteAt f (pos + 74)) (byteAt f (pos + 75)),
      Nonce = le32 (byteAt f (pos + 76)) (byteAt f (pos + 77))
                   (byteAt f (pos + 78)) (byteAt f (pos + 79))\<rparr>"

definition fileReadSeeker :: "File \<Rightarrow> int ReadSeeker" where
  "fileReadSeeker f =
     \<lparr>Seek = (\<lambda>pos off. if off < 0 then Inl IOError else Inr off),
      Deserialize = (\<lambda>pos. if pos + 80 \<le> int (fileSize f)
                            then Inr (parseHeaderAt f (nat pos), pos + 80)
                            else Inl IOError)\<rparr>"

text \<open>The file that holds the serialization of the headers \<open>hdr 0\<close>, ..., \<open>hdr (n - 1)\<close>.\<close>

definition byteOf :: "uint32 \<Rightarrow> nat \<Rightarrow> byte" where
  "byteOf w k = word_of_nat (unat w div 256 ^ k mod 256)"

definition headerByte :: "BlockHeader \<Rightarrow> nat \<Rightarrow> byte" where
  "headerByte h j =
     (if j < 4 then byteOf (Version h) j
      else if j < 36 then elemOr0 (PrevBlock h) (j - 4)
      else if j < 68 then elemOr0 (MerkleRoot h) (j - 36)
      else if j < 72 then byteOf (word_of_int (Timestamp h div 1000000000)) (j - 68)
      else if j < 76 then byteOf (Bits h) (j - 72)
      else byteOf (Nonce h) (j - 76))"

definition headerFile :: "(nat \<Rightarrow> BlockHeader) \<Rightarrow> nat \<Rightarrow> File" where
  "headerFile hdr n =
     \<lparr>fileSize = 80 * n, byteAt = (\<lambda>k. headerByte (hdr (k div 80)) (k mod 80))\<rparr>"

text \<open>
  Synthetic headers: header \<open>k\<close> has the timestamp \<open>t0 + k * spacing\<close> (in
  seconds) and the given bits; hashes and nonce are zero.
\<close>

definition syntheticHeader :: "int \<Rightarrow> int \<Rightarrow> uint32 \<Rightarrow> nat \<Rightarrow> BlockHeader" where
  "syntheticHeader t0 spacing bits k =
     \<lparr>Version = 1, PrevBlock = replicate 32 0, MerkleRoot = replicate 32 0,
      Timestamp = (t0 + int k * spacing) * 1000000000, Bits = bits, Nonce = 0\<rparr>"

text \<open>
  The store of the scenario: \<open>n\<close> headers exactly ten minutes (the
  \<^verbatim>\<open>TargetTimePerBlock\<close> of the regression test network) apart, all with the bits
  \<^verbatim>\<open>0x1d00ffff\<close>. \<open>slowStore\<close> has six headers 1201 seconds apart.
\<close>

definition evenHeader :: "nat \<Rightarrow> BlockHeader" where
  "evenHeader = syntheticHeader 1600000000 600 0x1d00ffff"

definition evenStore :: "nat \<Rightarrow> int ReadSeeker" where
  "evenStore n = fileReadSeeker (headerFile evenHeader n)"




text \<open>The float operations on whole seconds, with a horizon test that never holds.\<close>

definition noHorizon :: GoFloat where
  "noHorizon = wholeSeconds (\<lambda>_ _ _. False)"

text \<open>
  Parameter records with the chain parameters of \<^verbatim>\<open>RegressionNetParams\<close> and of
  \<^verbatim>\<open>TestNet3Params\<close>; the fields that identify the network keep their zero
  values.
\<close>

definition chainParams :: "int \<Rightarrow> uint32 \<Rightarrow> int64 \<Rightarrow> int64 \<Rightarrow> int64 \<Rightarrow> bool \<Rightarrow> Params" where
  "chainParams powLimit powLimitBits timespan timePerBlock factor reduce =
     \<lparr>Name = [], Net = 0, PowLimit = powLimit, PowLimitBits = powLimitBits,
      TargetTimespan = timespan, TargetTimePerBlock = timePerBlock,
      RetargetAdjustmentFactor = factor, ReduceMinDifficulty = reduce,
      MinDiffReductionTime = 0, Bech32HRPSegwit = [], PubKeyHashAddrID = 0,
      ScriptHashAddrID = 0, HDPrivateKeyID = (0, 0, 0, 0), HDPublicKeyID = (0, 0, 0, 0)\<rparr>"

definition regtestChain :: Params where
  "regtestChain = chainParams (2 ^ 255 - 1) 0x207fffff 1209600000000000 600000000000 4 True"

definition testnetChain :: Params where
  "testnetChain = chainParams (2 ^ 224 - 1) 0x1e0fffff 302400000000000 150000000000 4 True"

text \<open>
  Parameter records that differ from those of the regression test network in
  one field: a \<^verbatim>\<open>RetargetAdjustmentFactor\<close> of 0, a \<^verbatim>\<open>PowLimitBits\<close> with the sign
  bit, a negative \<^verbatim>\<open>TargetTimePerBlock\<close>. And a record whose \<^verbatim>\<open>PowLimitBits\<close>
  decode to \<open>- 1\<close>, with a \<^verbatim>\<open>TargetTimespan\<close> of one second.
\<close>

definition zeroFactorChain :: Params where
  "zeroFactorChain = chainParams (2 ^ 255 - 1) 0x207fffff 1209600000000000 600000000000 0 True"



definition negativeLimitChain :: Params where
  "negativeLimitChain = chainParams (- 1) 0x01810000 1000000000 1000000000 256 False"



section \<open>Properties of the registry\<close>

lemma length_slice4: "length (slice4 k) = 4"
  by (cases k) simp

text \<open>
  C9. \<^verbatim>\<open>Register\<close> fails exactly when the network is already registered, then
  with \<^verbatim>\<open>ErrDuplicateNet\<close> and without touching the registry; otherwise it
  returns nil: the HD key IDs are arrays of four bytes, so the length check of
  \<^verbatim>\<open>RegisterHDKeyID\<close> cannot fail.
\<close>

theorem Register_duplicate_only:
  "Register st params =
     (if Net params \<in> registeredNets st then (Some ErrDuplicateNet, st)
      else (None,
            st\<lparr>registeredNets := insert (Net params) (registeredNets st),
               pubKeyHashAddrIDs := insert (PubKeyHashAddrID params) (pubKeyHashAddrIDs st),
               scriptHashAddrIDs := insert (ScriptHashAddrID params) (scriptHashAddrIDs st),
               hdPrivToPubKeyIDs := (hdPrivToPubKeyIDs st)
                  (copy4 (slice4 (HDPrivateKeyID params)) \<mapsto> slice4 (HDPublicKeyID params)),
               bech32SegwitPrefixes :=
                  insert (Bech32HRPSegwit params @ ''1'') (bech32SegwitPrefixes st)\<rparr>))
   \<and> ((fst (Register st params) \<noteq> None) = (Net params \<in> registeredNets st))
   \<and> (fst (Register st params) = None \<or> fst (Register st params) = Some ErrDuplicateNet)"
  by (simp add: Register_def RegisterHDKeyID_def length_slice4 Let_def)

text \<open>
  C10. After a successful \<^verbatim>\<open>RegisterHDKeyID\<close> of two 4-byte IDs the lookup of
  the private ID returns the registered public ID and no error; a lookup with
  an ID that is not 4 bytes long returns \<^verbatim>\<open>ErrUnknownHDKeyID\<close>.
\<close>

theorem HDKeyID_roundtrip:
  "(length pub = 4 \<and> length priv = 4 \<longrightarrow>
      fst (RegisterHDKeyID st pub priv) = None \<and>
      HDPrivateKeyToPublicKeyID (snd (RegisterHDKeyID st pub priv)) priv = (pub, None))
   \<and> (length ident \<noteq> 4 \<longrightarrow>
      HDPrivateKeyToPublicKeyID st ident = ([], Some ErrUnknownHDKeyID))"
  by (simp add: RegisterHDKeyID_def HDPrivateKeyToPublicKeyID_def)

theorem HDKeyID_roundtrip_witness:
  "length [0x04, 0x88, 0xB2, 0x1E :: byte] = 4 \<and> length [0x04, 0x88, 0xAD, 0xE4 :: byte] = 4
   \<and> length [1, 2, 3 :: byte] \<noteq> 4
   \<and> fst (RegisterHDKeyID emptyRegistry [0x04, 0x88, 0xB2, 0x1E] [0x04, 0x88, 0xAD, 0xE4]) = None
   \<and> HDPrivateKeyToPublicKeyID
        (snd (RegisterHDKeyID emptyRegistry [0x04, 0x88, 0xB2, 0x1E] [0x04, 0x88, 0xAD, 0xE4]))
        [0x04, 0x88, 0xAD, 0xE4] = ([0x04, 0x88, 0xB2, 0x1E], None)
   \<and> HDPrivateKeyToPublicKeyID emptyRegistry [1, 2, 3] = ([], Some ErrUnknownHDKeyID)"
  using HDKeyID_roundtrip [of "[0x04, 0x88, 0xB2, 0x1E]" "[0x04, 0x88, 0xAD, 0xE4]" emptyRegistry "[1, 2, 3]"]
  by simp

section \<open>Properties of the compact encoding\<close>

lemma byteLen_bound: "n < 256 ^ byteLen n"
proof (induction n rule: byteLen.induct)
  case (1 n)
  show ?case
  proof (cases "n = 0")
    case True
    then show ?thesis by (simp add: byteLen.simps)
  next
    case False
    with 1 have "n div 256 < 256 ^ byteLen (n div 256)" by simp
    then have "n < 256 * 256 ^ byteLen (n div 256)"
      by (simp add: less_mult_imp_div_less div_less_iff_less_mult)
    with False show ?thesis by (simp add: byteLen.simps [of n])
  qed
qed

lemma shiftMantissa_mono: "e1 \<le> e2 \<Longrightarrow> shiftMantissa e1 m \<le> shiftMantissa e2 m"
proof -
  assume le: "e1 \<le> e2"
  consider "e2 \<le> 3" | "e1 \<le> 3" "3 < e2" | "3 < e1" by linarith
  then show ?thesis
  proof cases
    case 1
    with le have "(256::nat) ^ (3 - e2) \<le> 256 ^ (3 - e1)"
      by (intro power_increasing) auto
    then have "m div 256 ^ (3 - e1) \<le> m div 256 ^ (3 - e2)"
      by (intro div_le_mono2) auto
    with 1 le show ?thesis by (simp add: shiftMantissa_def)
  next
    case 2
    have "m div 256 ^ (3 - e1) \<le> m" by (rule div_le_dividend)
    also have "m \<le> m * 256 ^ (e2 - 3)" by simp
    finally show ?thesis using 2 by (simp add: shiftMantissa_def)
  next
    case 3
    with le have "(256::nat) ^ (e1 - 3) \<le> 256 ^ (e2 - 3)"
      by (intro power_increasing) auto
    with 3 le show ?thesis by (simp add: shiftMantissa_def)
  qed
qed

lemma split_mod_nat:
  fixes e n q r :: nat
  assumes "r < n"
  shows "(e * n + r) mod (n * q) = (e mod q) * n + r"
proof -
  have "(e * n + r) mod (n * q) = n * ((e * n + r) div n mod q) + (e * n + r) mod n"
    by (rule mod_mult2_eq)
  moreover have "(e * n + r) div n = e" using assms by simp
  moreover have "(e * n + r) mod n = r" using assms by simp
  ultimately show ?thesis by (simp add: mult.commute)
qed

lemma compact_nat_fields:
  fixes e sg m :: nat
  assumes m: "m < 2 ^ 23" and sg: "sg < 2"
  defines "c \<equiv> (e * 2 ^ 24 + (sg * 2 ^ 23 + m)) mod 2 ^ 32"
  shows "c mod 2 ^ 23 = m" and "(c div 2 ^ 23) mod 2 = sg" and "c div 2 ^ 24 = e mod 256"
proof -
  have r: "sg * 2 ^ 23 + m < (2::nat) ^ 24"
  proof -
    have "sg * 2 ^ 23 \<le> 1 * (2::nat) ^ 23" using sg by (intro mult_le_mono1) simp
    with m show ?thesis by simp
  qed
  have "(e * 2 ^ 24 + (sg * 2 ^ 23 + m)) mod (2 ^ 24 * 256) = (e mod 256) * 2 ^ 24 + (sg * 2 ^ 23 + m)"
    using r by (rule split_mod_nat)
  then have c: "c = (e mod 256) * 2 ^ 24 + (sg * 2 ^ 23 + m)"
    by (simp add: c_def)
  have g0: "\<And>k n m::nat. m < n \<Longrightarrow> (k * n + m) div n = k" by simp
  show "c div 2 ^ 24 = e mod 256" unfolding c using r by (rule g0)
  have c2: "c = (2 * (e mod 256) + sg) * 2 ^ 23 + m" unfolding c by simp
  have g1: "\<And>k n m::nat. m < n \<Longrightarrow> (k * n + m) mod n = m" by simp
  have g2: "\<And>k n m::nat. m < n \<Longrightarrow> (k * n + m) div n = k" by simp
  show "c mod 2 ^ 23 = m" unfolding c2 using m by (rule g1)
  have "c div 2 ^ 23 = 2 * (e mod 256) + sg" unfolding c2 using m by (rule g2)
  then show "(c div 2 ^ 23) mod 2 = sg" using sg by simp
qed

lemma CompactToBig_of_fields:
  fixes e sg m :: nat
  assumes m: "m < 2 ^ 23" and sg: "sg < 2"
    and w: "unat w = (e * 2 ^ 24 + (sg * 2 ^ 23 + m)) mod 2 ^ 32"
  shows "CompactToBig w = (if sg = 1 then - int (shiftMantissa (e mod 256) m) else int (shiftMantissa (e mod 256) m))"
  unfolding CompactToBig_def Let_def w
    compact_nat_fields(1) [OF m sg] compact_nat_fields(2) [OF m sg] compact_nat_fields(3) [OF m sg]
    shiftMantissa_def
  by simp

lemma encodeCompact_shape:
  assumes a: "0 < a"
  shows "\<exists>e m. m < 2 ^ 23 \<and>
           encodeCompact a neg = e * 2 ^ 24 + ((if neg then 1 else 0) * 2 ^ 23 + m) \<and>
           shiftMantissa e m \<le> a"
proof -
  define E where "E = byteLen a"
  define M where "M = (if E \<le> 3 then a * 256 ^ (3 - E) else a div 256 ^ (E - 3))"
  have aE: "a < 256 ^ E" unfolding E_def by (rule byteLen_bound)
  have M24: "M < 256 ^ 3"
  proof (cases "E \<le> 3")
    case True
    have "a * 256 ^ (3 - E) < 256 ^ E * 256 ^ (3 - E)"
      using aE by simp
    also have "\<dots> = 256 ^ (E + (3 - E))"
      by (simp only: power_add)
    also have "E + (3 - E) = 3" using True by simp
    finally show ?thesis using True by (simp add: M_def)
  next
    case False
    then have "E = 3 + (E - 3)" by simp
    then have "(256::nat) ^ E = 256 ^ 3 * 256 ^ (E - 3)"
      by (metis power_add)
    with aE have "a < 256 ^ 3 * 256 ^ (E - 3)" by simp
    then have "a div 256 ^ (E - 3) < 256 ^ 3"
      by (simp add: less_mult_imp_div_less)
    then show ?thesis using False by (simp add: M_def)
  qed
  have enc: "encodeCompact a neg =
      (if 2 ^ 23 \<le> M then E + 1 else E) * 2 ^ 24
      + ((if neg then 1 else 0) * 2 ^ 23 + (if 2 ^ 23 \<le> M then M div 256 else M))"
    unfolding encodeCompact_def Let_def E_def [symmetric] M_def [symmetric] by simp
  show ?thesis
  proof (cases "2 ^ 23 \<le> M")
    case False
    have "shiftMantissa E M \<le> a"
    proof (cases "E \<le> 3")
      case True
      then show ?thesis by (simp add: shiftMantissa_def M_def)
    next
      case F: False
      then show ?thesis by (simp add: shiftMantissa_def M_def)
    qed
    moreover have "M < 2 ^ 23" using False by simp
    moreover have "encodeCompact a neg = E * 2 ^ 24 + ((if neg then 1 else 0) * 2 ^ 23 + M)"
      using False enc by simp
    ultimately show ?thesis by blast
  next
    case True
    have m: "M div 256 < 2 ^ 23" using M24 by simp
    have "shiftMantissa (E + 1) (M div 256) \<le> a"
    proof -
      consider "E \<le> 2" | "E = 3" | "3 < E" by linarith
      then show ?thesis
      proof cases
        case 1
        then have "3 - E = Suc (2 - E)" by simp
        then have "M = a * 256 ^ (2 - E) * 256" using 1 by (simp add: M_def)
        then have "M div 256 = a * 256 ^ (2 - E)" by simp
        then show ?thesis using 1 by (simp add: shiftMantissa_def)
      next
        case 2
        then have "M = a" by (simp add: M_def)
        then show ?thesis using 2 by (simp add: shiftMantissa_def)
      next
        case 3
        then have M: "M = a div 256 ^ (E - 3)" by (simp add: M_def)
        have "E - 2 = Suc (E - 3)" using 3 by simp
        then have "M div 256 * 256 ^ (E - 2) = (M div 256 * 256) * 256 ^ (E - 3)" by simp
        also have "\<dots> \<le> M * 256 ^ (E - 3)" by (intro mult_le_mono1) simp
        also have "\<dots> \<le> a" unfolding M by simp
        finally show ?thesis using 3 by (simp add: shiftMantissa_def)
      qed
    qed
    moreover have "encodeCompact a neg
        = (E + 1) * 2 ^ 24 + ((if neg then 1 else 0) * 2 ^ 23 + M div 256)"
      using True enc by simp
    ultimately show ?thesis using m by blast
  qed
qed

text \<open>Decoding an encoded integer truncates its magnitude and keeps its sign.\<close>

lemma CompactToBig_BigToCompact:
  "\<exists>d. 0 \<le> d \<and> d \<le> \<bar>n\<bar> \<and> CompactToBig (BigToCompact n) = (if n < 0 then - d else d)"
proof (cases "n = 0")
  case True
  then show ?thesis by (simp add: BigToCompact_def CompactToBig_def shiftMantissa_def)
next
  case False
  then have a: "0 < nat \<bar>n\<bar>" by simp
  from encodeCompact_shape [OF a, of "n < 0"] obtain e m where
    m: "m < 2 ^ 23" and
    enc: "encodeCompact (nat \<bar>n\<bar>) (n < 0) = e * 2 ^ 24 + ((if n < 0 then 1 else 0) * 2 ^ 23 + m)" and
    d: "shiftMantissa e m \<le> nat \<bar>n\<bar>" by blast
  have sg: "(if n < 0 then 1 else 0) < (2::nat)" by simp
  have w: "unat (BigToCompact n) = (e * 2 ^ 24 + ((if n < 0 then 1 else 0) * 2 ^ 23 + m)) mod 2 ^ 32"
    using False by (simp only: BigToCompact_def if_False enc unat_of_nat) simp
  have dec: "CompactToBig (BigToCompact n)
      = (if (if n < 0 then 1 else 0) = (1::nat) then - int (shiftMantissa (e mod 256) m)
         else int (shiftMantissa (e mod 256) m))"
    using m sg w by (rule CompactToBig_of_fields)
  have "shiftMantissa (e mod 256) m \<le> shiftMantissa e m" by (rule shiftMantissa_mono) simp
  with d have "int (shiftMantissa (e mod 256) m) \<le> \<bar>n\<bar>" by linarith
  then show ?thesis using dec by (intro exI [of _ "int (shiftMantissa (e mod 256) m)"]) simp
qed

lemma CompactToBig_BigToCompact_le: "0 \<le> n \<Longrightarrow> CompactToBig (BigToCompact n) \<le> n"
  using CompactToBig_BigToCompact [of n] by auto

lemma CompactToBig_BigToCompact_nonneg: "0 \<le> n \<Longrightarrow> 0 \<le> CompactToBig (BigToCompact n)"
  using CompactToBig_BigToCompact [of n] by auto

lemma CompactToBig_BigToCompact_neg: "n < 0 \<Longrightarrow> CompactToBig (BigToCompact n) \<le> 0"
  using CompactToBig_BigToCompact [of n] by auto

section \<open>Properties of the header file\<close>

lemma unat_byteOf: "unat (byteOf w k) = unat w div 256 ^ k mod 256"
  by (simp add: byteOf_def unat_of_nat)

lemma digits_nat:
  fixes x :: nat
  assumes "x < 4294967296"
  shows "x mod 256 + 256 * (x div 256 mod 256) + 65536 * (x div 65536 mod 256)
           + 16777216 * (x div 16777216 mod 256) = x"
proof -
  have d2: "x div 65536 = x div 256 div 256" by (simp add: div_mult2_eq [symmetric])
  have d3: "x div 16777216 = x div 256 div 256 div 256" by (simp add: div_mult2_eq [symmetric])
  have a: "x = x mod 256 + 256 * (x div 256)" by simp
  have b: "x div 256 = x div 256 mod 256 + 256 * (x div 256 div 256)" by simp
  have c: "x div 256 div 256 = x div 256 div 256 mod 256 + 256 * (x div 256 div 256 div 256)" by simp
  have "x div 16777216 < 256" using assms by (simp add: less_mult_imp_div_less)
  then have d: "x div 16777216 mod 256 = x div 256 div 256 div 256" by (simp add: d3)
  show ?thesis unfolding d2 d using a b c by linarith
qed

lemma digits_pow_nat:
  fixes x :: nat
  assumes "x < 4294967296"
  shows "x div 256 ^ 0 mod 256 + 256 * (x div 256 ^ 1 mod 256)
           + 65536 * (x div 256 ^ 2 mod 256) + 16777216 * (x div 256 ^ 3 mod 256) = x"
proof -
  have "x div 16777216 < 256" using assms by (simp add: less_mult_imp_div_less)
  with digits_nat [OF assms] show ?thesis by simp
qed

lemma le32_byteOf: "le32 (byteOf w 0) (byteOf w 1) (byteOf w 2) (byteOf w 3) = w"
proof -
  have "unat w < 2 ^ LENGTH(32)" by (rule unsigned_less)
  then have "unat w < 4294967296" by simp
  then have "unat w div 256 ^ 0 mod 256 + 256 * (unat w div 256 ^ 1 mod 256)
           + 65536 * (unat w div 256 ^ 2 mod 256) + 16777216 * (unat w div 256 ^ 3 mod 256) = unat w"
    by (rule digits_pow_nat)
  then have "le32 (byteOf w 0) (byteOf w 1) (byteOf w 2) (byteOf w 3) = word_of_nat (unat w)"
    unfolding le32_def unat_byteOf by (rule arg_cong)
  then show ?thesis by simp
qed

text \<open>Reading header \<open>k\<close> of a header file gives back the header that was written.\<close>

lemma byteAt_headerFile: "j < 80 \<Longrightarrow> byteAt (headerFile hdr n) (80 * k + j) = headerByte (hdr k) j"
  by (simp add: headerFile_def)

lemma parseHeaderAt_headerFile:
  assumes wf: "length (PrevBlock (hdr k)) = 32" "length (MerkleRoot (hdr k)) = 32"
    and ts: "0 \<le> s" "s < 4294967296" "Timestamp (hdr k) = s * 1000000000"
  shows "parseHeaderAt (headerFile hdr n) (80 * k) = hdr k"
proof -
  let ?f = "headerFile hdr n"
  have b0: "byteAt ?f (80 * k) = headerByte (hdr k) 0"
    using byteAt_headerFile [of 0 hdr n k] by simp
  have b1: "byteAt ?f (Suc (80 * k)) = headerByte (hdr k) 1"
    using byteAt_headerFile [of 1 hdr n k] by simp
  have b2: "byteAt ?f (Suc (Suc (80 * k))) = headerByte (hdr k) 2"
    using byteAt_headerFile [of 2 hdr n k] by simp
  note b = b0 b1 b2 byteAt_headerFile [of _ hdr n k]
  have v: "Version (parseHeaderAt ?f (80 * k)) = Version (hdr k)"
    using le32_byteOf [of "Version (hdr k)"] by (simp add: parseHeaderAt_def b headerByte_def)
  have bi: "Bits (parseHeaderAt ?f (80 * k)) = Bits (hdr k)"
    using le32_byteOf [of "Bits (hdr k)"] by (simp add: parseHeaderAt_def b headerByte_def)
  have no: "Nonce (parseHeaderAt ?f (80 * k)) = Nonce (hdr k)"
    using le32_byteOf [of "Nonce (hdr k)"] by (simp add: parseHeaderAt_def b headerByte_def)
  have "uint (word_of_int s :: 32 word) = s"
    using ts by (simp add: uint_word_of_int)
  then have t: "Timestamp (parseHeaderAt ?f (80 * k)) = Timestamp (hdr k)"
    using le32_byteOf [of "word_of_int s"] ts
    by (simp add: parseHeaderAt_def b headerByte_def)
  have pb: "PrevBlock (parseHeaderAt ?f (80 * k)) = PrevBlock (hdr k)"
  proof (rule nth_equalityI)
    show "length (PrevBlock (parseHeaderAt ?f (80 * k))) = length (PrevBlock (hdr k))"
      using wf by (simp add: parseHeaderAt_def)
  next
    fix i assume "i < length (PrevBlock (parseHeaderAt ?f (80 * k)))"
    then have i: "i < 32" by (simp add: parseHeaderAt_def)
    then have "PrevBlock (parseHeaderAt ?f (80 * k)) ! i = byteAt ?f (80 * k + (4 + i))"
      by (simp add: parseHeaderAt_def add.assoc)
    also have "\<dots> = headerByte (hdr k) (4 + i)" using i by (intro byteAt_headerFile) simp
    also have "\<dots> = PrevBlock (hdr k) ! i" using i wf by (simp add: headerByte_def elemOr0_def)
    finally show "PrevBlock (parseHeaderAt ?f (80 * k)) ! i = PrevBlock (hdr k) ! i" .
  qed
  have mr: "MerkleRoot (parseHeaderAt ?f (80 * k)) = MerkleRoot (hdr k)"
  proof (rule nth_equalityI)
    show "length (MerkleRoot (parseHeaderAt ?f (80 * k))) = length (MerkleRoot (hdr k))"
      using wf by (simp add: parseHeaderAt_def)
  next
    fix i assume "i < length (MerkleRoot (parseHeaderAt ?f (80 * k)))"
    then have i: "i < 32" by (simp add: parseHeaderAt_def)
    then have "MerkleRoot (parseHeaderAt ?f (80 * k)) ! i = byteAt ?f (80 * k + (36 + i))"
      by (simp add: parseHeaderAt_def add.assoc)
    also have "\<dots> = headerByte (hdr k) (36 + i)" using i by (intro byteAt_headerFile) simp
    also have "\<dots> = MerkleRoot (hdr k) ! i" using i wf by (simp add: headerByte_def elemOr0_def)
    finally show "MerkleRoot (parseHeaderAt ?f (80 * k)) ! i = MerkleRoot (hdr k) ! i" .
  qed
  show ?thesis
    by (rule BlockHeader.equality) (simp_all add: v bi no t pb mr)
qed

lemma readHeaderAt_headerFile:
  assumes "k < n" "length (PrevBlock (hdr k)) = 32" "length (MerkleRoot (hdr k)) = 32"
    "0 \<le> s" "s < 4294967296" "Timestamp (hdr k) = s * 1000000000"
  shows "readHeaderAt (fileReadSeeker (headerFile hdr n)) pos (int (80 * k))
           = Inr (hdr k, int (80 * k) + 80)"
proof -
  have "parseHeaderAt (headerFile hdr n) (80 * k) = hdr k"
    using assms(2-) by (rule parseHeaderAt_headerFile)
  moreover have "fileSize (headerFile hdr n) = 80 * n" by (simp add: headerFile_def)
  moreover have "nat (80 * int k) = 80 * k" by simp
  ultimately show ?thesis
    using assms(1) by (simp add: readHeaderAt_def fileReadSeeker_def)
qed

lemma readHeaderAt_synthetic:
  assumes "k < n" "0 \<le> t0 + int k * spacing" "t0 + int k * spacing < 4294967296"
  shows "readHeaderAt (fileReadSeeker (headerFile (syntheticHeader t0 spacing bits) n)) pos (int (80 * k))
           = Inr (syntheticHeader t0 spacing bits k, int (80 * k) + 80)"
  using assms(1) _ _ assms(2,3)
  by (rule readHeaderAt_headerFile) (simp_all add: syntheticHeader_def)

lemma regtest_fields:
  "TargetTimePerBlock regtestChain = 600000000000"
  "TargetTimespan regtestChain = 1209600000000000"
  "RetargetAdjustmentFactor regtestChain = 4"
  "PowLimitBits regtestChain = 0x207fffff"
  "PowLimit regtestChain = 2 ^ 255 - 1"
  "ReduceMinDifficulty regtestChain = True"
  by (simp_all add: regtestChain_def chainParams_def)

lemma testnet_fields:
  "PowLimit testnetChain = 2 ^ 224 - 1"
  "PowLimitBits testnetChain = 0x1e0fffff"
  "TargetTimespan testnetChain = 302400000000000"
  "TargetTimePerBlock testnetChain = 150000000000"
  "RetargetAdjustmentFactor testnetChain = 4"
  by (simp_all add: testnetChain_def chainParams_def)

lemma epochLengthOf_regtest: "epochLengthOf regtestChain = 2016"
  by (simp add: epochLengthOf_def regtest_fields quo64_def signed_divide_int_def)

lemma minmax_regtest:
  "minRetargetTimespan (wholeSeconds h) regtestChain = 302400"
  "maxRetargetTimespan (wholeSeconds h) regtestChain = 4838400"
  by (simp_all add: minRetargetTimespan_def maxRetargetTimespan_def wholeSeconds_def
      regtest_fields quo64_def signed_divide_int_def)

lemma calcDiffAdjustBitcoin_unfold:
  assumes "RetargetAdjustmentFactor p \<noteq> 0" "quo64 (TargetTimespan p) 1000000000 = ts" "ts \<noteq> 0"
    "clampedDuration fl start end p = d"
  shows "calcDiffAdjustBitcoin fl start end p =
     Returns (BigToCompact
       (if CompactToBig (PowLimitBits p) < bigDiv (CompactToBig (Bits start) * sint d) (sint ts)
        then CompactToBig (PowLimitBits p)
        else bigDiv (CompactToBig (Bits start) * sint d) (sint ts)))"
  using assms by (simp add: calcDiffAdjustBitcoin_def Let_def)

lemma compact_values:
  "CompactToBig 0x1d00ffff = 0xffff * 2 ^ 208"
  "CompactToBig 0x207fffff = 0x7fffff * 2 ^ 232"
  by (simp_all add: CompactToBig_def shiftMantissa_def Let_def)

lemma A_quarter:
  assumes "clampedDuration (wholeSeconds h) start end regtestChain = 302400" "Bits start = 0x1d00ffff"
  shows "calcDiffAdjustBitcoin (wholeSeconds h) start end regtestChain = Returns 0x1c3fffc0"
proof -
  have q: "quo64 (TargetTimespan regtestChain) 1000000000 = 1209600"
    by (simp add: regtest_fields quo64_def signed_divide_int_def)
  have "calcDiffAdjustBitcoin (wholeSeconds h) start end regtestChain =
     Returns (BigToCompact (0xffff * 2 ^ 206))"
    by (subst calcDiffAdjustBitcoin_unfold [OF _ q _ assms(1)])
       (simp_all add: regtest_fields assms(2) compact_values bigDiv_def)
  also have "BigToCompact (0xffff * 2 ^ 206) = 0x1c3fffc0"
    by (simp add: BigToCompact_def encodeCompact_def byteLen.simps Let_def)
  finally show ?thesis .
qed

section \<open>Properties of algorithm A\<close>

lemma byteLen_shift: "0 < m \<Longrightarrow> byteLen (m * 256 ^ k) = byteLen m + k"
proof (induction k)
  case 0
  then show ?case by simp
next
  case (Suc k)
  have "byteLen (m * 256 ^ Suc k) = 1 + byteLen ((m * 256 ^ Suc k) div 256)"
    using Suc.prems by (subst byteLen.simps) simp
  also have "(m * 256 ^ Suc k) div 256 = m * 256 ^ k" by simp
  finally show ?case using Suc by simp
qed

lemma A_testnet_limit:
  "calcDiffAdjustBitcoin noHorizon (syntheticHeader 1600000000 600 0x1e0fffff 0)
     (syntheticHeader 1600000000 600 0x1e0fffff 2015) testnetChain = Returns 0x1e0fffff"
proof -
  let ?s = "syntheticHeader 1600000000 600 0x1e0fffff 0"
  let ?e = "syntheticHeader 1600000000 600 0x1e0fffff 2015"
  have q: "quo64 (TargetTimespan testnetChain) 1000000000 = 302400"
    by (simp add: testnet_fields quo64_def signed_divide_int_def)
  have cd: "clampedDuration noHorizon ?s ?e testnetChain = 1209600"
    by (simp add: clampedDuration_def minRetargetTimespan_def maxRetargetTimespan_def
        noHorizon_def wholeSeconds_def testnet_fields quo64_def signed_divide_int_def
        syntheticHeader_def UnixNano_def Let_def word_sless_alt)
  have L: "CompactToBig 0x1e0fffff = 0xfffff * 2 ^ 216"
    by (simp add: CompactToBig_def shiftMantissa_def Let_def)
  have "calcDiffAdjustBitcoin noHorizon ?s ?e testnetChain =
     Returns (BigToCompact (0xfffff * 2 ^ 216))"
    by (subst calcDiffAdjustBitcoin_unfold [OF _ q _ cd])
       (simp_all add: testnet_fields syntheticHeader_def L bigDiv_def)
  also have "BigToCompact (0xfffff * 2 ^ 216) = 0x1e0fffff"
    by (simp add: BigToCompact_def encodeCompact_def byteLen.simps Let_def)
  finally show ?thesis .
qed

lemma A_zero_factor:
  "calcDiffAdjustBitcoin noHorizon (evenHeader 0) (evenHeader 2015) zeroFactorChain = Panics"
  by (simp add: calcDiffAdjustBitcoin_def zeroFactorChain_def chainParams_def)

lemma A_negative_limit:
  "calcDiffAdjustBitcoin noHorizon (syntheticHeader 1600000000 600 0xff8fffff 0)
     (syntheticHeader 1600000000 600 0xff8fffff 1) negativeLimitChain = Returns 0x008fffff"
proof -
  let ?s = "syntheticHeader 1600000000 600 0xff8fffff 0"
  let ?e = "syntheticHeader 1600000000 600 0xff8fffff 1"
  have f: "TargetTimespan negativeLimitChain = 1000000000"
    "RetargetAdjustmentFactor negativeLimitChain = 256"
    "PowLimitBits negativeLimitChain = 0x01810000"
    by (simp_all add: negativeLimitChain_def chainParams_def)
  have q: "quo64 (TargetTimespan negativeLimitChain) 1000000000 = 1"
    by (simp add: f quo64_def signed_divide_int_def)
  have cd: "clampedDuration noHorizon ?s ?e negativeLimitChain = 256"
    by (simp add: clampedDuration_def minRetargetTimespan_def maxRetargetTimespan_def
        noHorizon_def wholeSeconds_def f quo64_def signed_divide_int_def
        syntheticHeader_def UnixNano_def Let_def word_sless_alt)
  have S: "CompactToBig 0xff8fffff = - (0xfffff * 256 ^ 252)"
    by (simp add: CompactToBig_def shiftMantissa_def Let_def)
  have L: "CompactToBig 0x01810000 = - 1"
    by (simp add: CompactToBig_def shiftMantissa_def Let_def)
  have "calcDiffAdjustBitcoin noHorizon ?s ?e negativeLimitChain =
     Returns (BigToCompact (- (0xfffff * 256 ^ 253)))"
    by (subst calcDiffAdjustBitcoin_unfold [OF _ q _ cd])
       (simp_all add: f syntheticHeader_def S L bigDiv_def)
  also have "BigToCompact (- (0xfffff * 256 ^ 253)) = 0x008fffff"
  proof -
    have n: "nat \<bar>- (0xfffff * 256 ^ 253 :: int)\<bar> = 0xfffff * 256 ^ 253"
      by (simp add: nat_mult_distrib nat_power_eq)
    have b: "byteLen (0xfffff * 256 ^ 253) = 256"
      by (subst byteLen_shift) (simp_all add: byteLen.simps)
    have "encodeCompact (0xfffff * 256 ^ 253) True = 256 * 2 ^ 24 + 2 ^ 23 + 0xfffff"
      unfolding encodeCompact_def b by (simp add: Let_def)
    then show ?thesis
      unfolding BigToCompact_def n by simp
  qed
  finally show ?thesis .
qed

text \<open>
  C5, as stated, fails. With the parameters of testnet3 (the main network has
  the same two limits) algorithm A clamps to the target of \<^verbatim>\<open>PowLimitBits\<close>,
  \<^verbatim>\<open>0x1e0fffff\<close>, which is above \<^verbatim>\<open>PowLimit\<close> = \<open>2 ^ 224 - 1\<close>: for a start header
  with these bits and an end header 2015 blocks later it returns \<^verbatim>\<open>0x1e0fffff\<close>.
  With a \<^verbatim>\<open>RetargetAdjustmentFactor\<close> of 0 it returns nothing: Go panics on the
  integer division. And when \<^verbatim>\<open>PowLimitBits\<close> carry the sign bit the result can
  decode to more than they do: with \<^verbatim>\<open>PowLimitBits\<close> that decode to \<open>- 1\<close>, a start
  target of \<open>- (0xfffff * 256 ^ 252)\<close> and a clamped duration of 256 the new
  target has 256 bytes, its exponent wraps in the \<^verbatim>\<open>uint32\<close>, and the result
  \<^verbatim>\<open>0x008fffff\<close> decodes to 0.
\<close>

theorem calcDiffAdjustBitcoin_exceeds_PowLimit_counterexample:
  "calcDiffAdjustBitcoin noHorizon (syntheticHeader 1600000000 600 0x1e0fffff 0)
     (syntheticHeader 1600000000 600 0x1e0fffff 2015) testnetChain = Returns 0x1e0fffff \<and>
   PowLimit testnetChain < CompactToBig 0x1e0fffff \<and>
   calcDiffAdjustBitcoin noHorizon (evenHeader 0) (evenHeader 2015) zeroFactorChain = Panics \<and>
   calcDiffAdjustBitcoin noHorizon (syntheticHeader 1600000000 600 0xff8fffff 0)
     (syntheticHeader 1600000000 600 0xff8fffff 1) negativeLimitChain = Returns 0x008fffff \<and>
   CompactToBig (PowLimitBits negativeLimitChain) = - 1 \<and>
   CompactToBig 0x008fffff = 0"
proof -
  have "PowLimit testnetChain < CompactToBig 0x1e0fffff"
    by (simp add: testnet_fields CompactToBig_def shiftMantissa_def Let_def)
  moreover have "CompactToBig (PowLimitBits negativeLimitChain) = - 1"
    by (simp add: negativeLimitChain_def chainParams_def CompactToBig_def shiftMantissa_def Let_def)
  moreover have "CompactToBig 0x008fffff = 0"
    by (simp add: CompactToBig_def shiftMantissa_def Let_def)
  ultimately show ?thesis
    using A_testnet_limit A_zero_factor A_negative_limit by simp
qed

lemma clamp_encode:
  "CompactToBig (BigToCompact (if L < t then L else t)) \<le> max 0 L"
proof (cases "0 \<le> (if L < t then L else t)")
  case True
  then have "CompactToBig (BigToCompact (if L < t then L else t)) \<le> (if L < t then L else t)"
    by (rule CompactToBig_BigToCompact_le)
  then show ?thesis by (simp split: if_splits)
next
  case False
  then have "CompactToBig (BigToCompact (if L < t then L else t)) \<le> 0"
    by (intro CompactToBig_BigToCompact_neg) simp
  then show ?thesis by simp
qed

text \<open>
  C5, amended. Algorithm A panics exactly when \<^verbatim>\<open>RetargetAdjustmentFactor\<close> is 0
  or \<^verbatim>\<open>TargetTimespan\<close> is less than a second in absolute value. Otherwise, whatever the bits
  and the timestamps of the two headers and whatever the parameters are, the
  bits it returns decode to at most the target that \<^verbatim>\<open>PowLimitBits\<close> decode to,
  or to at most 0 when that target is negative. The function does not read
  \<^verbatim>\<open>PowLimit\<close>.
\<close>

theorem calcDiffAdjustBitcoin_clamped:
  "(calcDiffAdjustBitcoin fl start end p = Panics) =
     (RetargetAdjustmentFactor p = 0 \<or> quo64 (TargetTimespan p) 1000000000 = 0) \<and>
   (case calcDiffAdjustBitcoin fl start end p of
      Returns bits \<Rightarrow> CompactToBig bits \<le> max 0 (CompactToBig (PowLimitBits p))
    | Panics \<Rightarrow> True)"
  using clamp_encode by (simp add: calcDiffAdjustBitcoin_def Let_def)

section \<open>Properties of algorithms B and C\<close>







lemma epochLengthOf_zero: "TargetTimePerBlock p = 0 \<Longrightarrow> epochLengthOf p = 0"
  by (simp add: epochLengthOf_def quo64_def)

lemma BTCDiff_reads:
  assumes "epochLengthOf p \<noteq> 0"
    "readHeaderAt rs r (sint (80 * (height - startheight - 1))) = Inr (prev, r1)"
    "readHeaderAt rs r1 (sint (80 * (height - startheight))) = Inr (cur, r2)"
    "readHeaderAt rs r2 (sint (80 * (height - startheight - rem32 height (epochLengthOf p))))
       = Inr (epochStart, r3)"
  shows "BTCDiff fl rs r height startheight p =
     (if rem32 height (epochLengthOf p) = 0
      then (case calcDiffAdjustBitcoin fl epochStart prev p of
              Panics \<Rightarrow> Panics
            | Returns rightBits \<Rightarrow> Returns (rightBits, None))
      else Returns (notNewEpoch cur prev epochStart p, None))"
proof -
  have "TargetTimePerBlock p \<noteq> 0" using assms(1) epochLengthOf_zero by blast
  then show ?thesis using assms by (simp add: BTCDiff_def Let_def)
qed

lemma LTCDiff_reads:
  assumes "epochLengthOf p \<noteq> 0"
    "readHeaderAt rs r (sint (80 * (height - startheight - 1))) = Inr (prev, r1)"
    "readHeaderAt rs r1 (sint (80 * (height - startheight))) = Inr (cur, r2)"
    "readHeaderAt rs r2 (sint (80 * (height - startheight - rem32 height (epochLengthOf p))))
       = Inr (epochStart, r3)"
  shows "LTCDiff fl rs r height startheight p =
     (if rem32 height (epochLengthOf p) = 0
      then (case readHeaderAt rs r3
                   (if height = epochLengthOf p then 0
                    else sint (height - startheight - epochLengthOf p)) of
              Inl err \<Rightarrow> Returns (0, Some err)
            | Inr (epochStart', r4) \<Rightarrow>
                (case calcDiffAdjustBitcoin fl epochStart' prev p of
                   Panics \<Rightarrow> Panics
                 | Returns rightBits \<Rightarrow> Returns (rightBits, None)))
      else Returns (notNewEpoch cur prev epochStart p, None))"
proof -
  have "TargetTimePerBlock p \<noteq> 0" using assms(1) epochLengthOf_zero by blast
  then show ?thesis using assms by (simp add: LTCDiff_def Let_def)
qed


lemma read_evenStore:
  assumes "k < n" "k < 100000"
  shows "readHeaderAt (evenStore n) pos (int (80 * k)) = Inr (evenHeader k, int (80 * k) + 80)"
  unfolding evenStore_def evenHeader_def
  using assms by (intro readHeaderAt_synthetic) simp_all


lemma evenHeader_fields:
  "Bits (evenHeader k) = 0x1d00ffff"
  "Timestamp (evenHeader k) = (1600000000 + int k * 600) * 1000000000"
  by (simp_all add: evenHeader_def syntheticHeader_def)



lemma clamped_even:
  "clampedDuration (wholeSeconds h) (evenHeader 2016) (evenHeader 2015) regtestChain = 302400"
  "clampedDuration (wholeSeconds h) (evenHeader 0) (evenHeader 2015) regtestChain = 4838400"
  "clampedDuration (wholeSeconds h) (evenHeader 2016) (evenHeader 4031) regtestChain = 4838400"
  by (simp_all add: clampedDuration_def minmax_regtest evenHeader_fields UnixNano_def Let_def)

lemma quo64_regtest: "quo64 (TargetTimespan regtestChain) 1000000000 = 1209600"
  by (simp add: regtest_fields quo64_def signed_divide_int_def)

lemma A_fourfold:
  assumes "clampedDuration (wholeSeconds h) start end regtestChain = 4838400" "Bits start = 0x1d00ffff"
  shows "calcDiffAdjustBitcoin (wholeSeconds h) start end regtestChain = Returns 0x1d03fffc"
proof -
  have "calcDiffAdjustBitcoin (wholeSeconds h) start end regtestChain =
     Returns (BigToCompact (0xffff * 2 ^ 210))"
    by (subst calcDiffAdjustBitcoin_unfold [OF _ quo64_regtest _ assms(1)])
       (simp_all add: regtest_fields assms(2) compact_values bigDiv_def)
  also have "BigToCompact (0xffff * 2 ^ 210) = 0x1d03fffc"
    by (simp add: BigToCompact_def encodeCompact_def byteLen.simps Let_def)
  finally show ?thesis .
qed

lemma A_zero:
  assumes "Bits start = 0"
  shows "calcDiffAdjustBitcoin fl start end regtestChain = Returns 0"
proof -
  have z: "CompactToBig 0 = 0" by (simp add: CompactToBig_def shiftMantissa_def)
  show ?thesis
    by (subst calcDiffAdjustBitcoin_unfold [OF _ quo64_regtest _ refl])
       (simp_all add: regtest_fields assms z compact_values bigDiv_def BigToCompact_def)
qed

lemma rem32_values: "rem32 2016 2016 = 0" "rem32 4032 2016 = 0"
  by (simp_all add: rem32_def signed_modulo_int_def)

lemma BTCDiff_even_2016:
  "BTCDiff noHorizon (evenStore 2017) 0 2016 0 regtestChain = Returns (0x1c3fffc0, None)"
proof -
  have e: "epochLengthOf regtestChain \<noteq> 0" by (simp add: epochLengthOf_regtest)
  have r1: "readHeaderAt (evenStore 2017) 0 (sint (80 * (2016 - 0 - 1 :: int32)))
      = Inr (evenHeader 2015, 161280)"
    using read_evenStore [of 2015 2017 0] by simp
  have r2: "readHeaderAt (evenStore 2017) 161280 (sint (80 * (2016 - 0 :: int32)))
      = Inr (evenHeader 2016, 161360)"
    using read_evenStore [of 2016 2017 161280] by simp
  have r3: "readHeaderAt (evenStore 2017) 161360
      (sint (80 * (2016 - 0 - rem32 2016 (epochLengthOf regtestChain))))
      = Inr (evenHeader 2016, 161360)"
    using read_evenStore [of 2016 2017 161360] by (simp add: epochLengthOf_regtest rem32_values)
  have A: "calcDiffAdjustBitcoin noHorizon (evenHeader 2016) (evenHeader 2015) regtestChain
      = Returns 0x1c3fffc0"
    unfolding noHorizon_def using clamped_even(1) by (rule A_quarter) (simp add: evenHeader_fields)
  show ?thesis
    by (simp add: BTCDiff_reads [OF e r1 r2 r3] epochLengthOf_regtest rem32_values A)
qed

text \<open>
  C1. On 2017 headers ten minutes apart that all carry the bits \<^verbatim>\<open>0x1d00ffff\<close>,
  \<^verbatim>\<open>BTCDiff\<close> at height 2016 (start height 0) with the parameters of the
  regression test network returns \<^verbatim>\<open>0x1c3fffc0\<close>, a quarter of the starting
  target, and not the starting bits. The epoch start is read at byte
  \<open>80 * 2016\<close>, which is the current header, so that the time from it to
  header 2015 is \<open>- 600\<close> seconds; and this time, in nanoseconds, is compared
  with the bounds 302400 and 4838400, which are seconds, and raised to 302400.
  From header 0 to header 2015 the nanoseconds would be cut to 4838400.
\<close>

theorem BTCDiff_even_spacing_quarters_target:
  "BTCDiff noHorizon (evenStore 2017) 0 2016 0 regtestChain = Returns (0x1c3fffc0, None) \<and>
   Bits (evenHeader 0) = 0x1d00ffff \<and> (0x1c3fffc0 :: uint32) \<noteq> 0x1d00ffff \<and>
   sint (80 * (2016 - 0 - rem32 2016 (epochLengthOf regtestChain))) = 161280 \<and>
   readHeaderAt (evenStore 2017) 161360 161280 = Inr (evenHeader 2016, 161360) \<and>
   UnixNano (Timestamp (evenHeader 2015)) - UnixNano (Timestamp (evenHeader 2016))
     = - 600000000000 \<and>
   minRetargetTimespan noHorizon regtestChain = 302400 \<and>
   maxRetargetTimespan noHorizon regtestChain = 4838400 \<and>
   clampedDuration noHorizon (evenHeader 2016) (evenHeader 2015) regtestChain = 302400 \<and>
   UnixNano (Timestamp (evenHeader 2015)) - UnixNano (Timestamp (evenHeader 0))
     = 1209000000000000 \<and>
   clampedDuration noHorizon (evenHeader 0) (evenHeader 2015) regtestChain = 4838400"
proof -
  have off: "sint (80 * (2016 - 0 - rem32 2016 (epochLengthOf regtestChain))) = 161280"
    by (simp add: epochLengthOf_regtest rem32_values)
  have rd: "readHeaderAt (evenStore 2017) 161360 161280 = Inr (evenHeader 2016, 161360)"
    using read_evenStore [of 2016 2017 161360] by simp
  have d1: "UnixNano (Timestamp (evenHeader 2015)) - UnixNano (Timestamp (evenHeader 2016))
      = - 600000000000"
    by (simp add: UnixNano_def evenHeader_fields)
  have d2: "UnixNano (Timestamp (evenHeader 2015)) - UnixNano (Timestamp (evenHeader 0))
      = 1209000000000000"
    by (simp add: UnixNano_def evenHeader_fields)
  show ?thesis
    unfolding noHorizon_def
    by (simp only: BTCDiff_even_2016 [unfolded noHorizon_def] evenHeader_fields(1) off rd d1 d2
        minmax_regtest clamped_even simp_thms)
       simp
qed

text \<open>
  C2. On the same store \<^verbatim>\<open>BTCDiff\<close> at height 2016 returns what algorithm A gives
  for header 2016 as start and header 2015 as end, \<^verbatim>\<open>0x1c3fffc0\<close>: at a boundary
  \<^verbatim>\<open>height % epochLength\<close> is 0 and the epoch start is read at the current
  height. Algorithm A on header 0 and header 2015, which the claim and the
  comment \<^verbatim>\<open>calculate diff n based on n-2016 ... n-1\<close> ask for, gives
  \<^verbatim>\<open>0x1d03fffc\<close>.
\<close>

theorem BTCDiff_boundary_starts_at_current_header:
  "BTCDiff noHorizon (evenStore 2017) 0 2016 0 regtestChain = Returns (0x1c3fffc0, None) \<and>
   calcDiffAdjustBitcoin noHorizon (evenHeader 2016) (evenHeader 2015) regtestChain
     = Returns 0x1c3fffc0 \<and>
   calcDiffAdjustBitcoin noHorizon (evenHeader 0) (evenHeader 2015) regtestChain
     = Returns 0x1d03fffc"
proof -
  have "calcDiffAdjustBitcoin noHorizon (evenHeader 2016) (evenHeader 2015) regtestChain
      = Returns 0x1c3fffc0"
    unfolding noHorizon_def using clamped_even(1) by (rule A_quarter) (simp add: evenHeader_fields)
  moreover have "calcDiffAdjustBitcoin noHorizon (evenHeader 0) (evenHeader 2015) regtestChain
      = Returns 0x1d03fffc"
    unfolding noHorizon_def using clamped_even(2) by (rule A_fourfold) (simp add: evenHeader_fields)
  ultimately show ?thesis by (simp add: BTCDiff_even_2016)
qed

lemma misaligned_header:
  "Bits (parseHeaderAt (headerFile evenHeader 4033) 2016) = 0"
  by (simp add: parseHeaderAt_def headerFile_def headerByte_def evenHeader_def
      syntheticHeader_def elemOr0_def le32_def)

text \<open>
  C3. At the boundary height 4032 (start height 0, epoch length 2016)
  \<^verbatim>\<open>LTCDiff\<close> seeks to \<^verbatim>\<open>offsetHeight - epochLength\<close> = 2016 as a byte offset,
  not to header 2016 at byte \<open>80 * 2016\<close>: it deserializes the 80 bytes from
  byte 2016 on, which straddle headers 25 and 26 and whose bits field is 0,
  and returns the bits 0. Algorithm A on header 2016 and header 4031 gives
  \<^verbatim>\<open>0x1d03fffc\<close>.
\<close>

theorem LTCDiff_boundary_seeks_byte_offset:
  "LTCDiff noHorizon (evenStore 4033) 0 4032 0 regtestChain = Returns (0, None) \<and>
   readHeaderAt (evenStore 4033) 322640 2016
     = Inr (parseHeaderAt (headerFile evenHeader 4033) 2016, 2096) \<and>
   Bits (parseHeaderAt (headerFile evenHeader 4033) 2016) = 0 \<and>
   calcDiffAdjustBitcoin noHorizon (evenHeader 2016) (evenHeader 4031) regtestChain
     = Returns 0x1d03fffc"
proof -
  have e: "epochLengthOf regtestChain \<noteq> 0" by (simp add: epochLengthOf_regtest)
  have r1: "readHeaderAt (evenStore 4033) 0 (sint (80 * (4032 - 0 - 1 :: int32)))
      = Inr (evenHeader 4031, 322560)"
    using read_evenStore [of 4031 4033 0] by simp
  have r2: "readHeaderAt (evenStore 4033) 322560 (sint (80 * (4032 - 0 :: int32)))
      = Inr (evenHeader 4032, 322640)"
    using read_evenStore [of 4032 4033 322560] by simp
  have r3: "readHeaderAt (evenStore 4033) 322640
      (sint (80 * (4032 - 0 - rem32 4032 (epochLengthOf regtestChain))))
      = Inr (evenHeader 4032, 322640)"
    using read_evenStore [of 4032 4033 322640] by (simp add: epochLengthOf_regtest rem32_values)
  have r4: "readHeaderAt (evenStore 4033) 322640 2016
      = Inr (parseHeaderAt (headerFile evenHeader 4033) 2016, 2096)"
    by (simp add: readHeaderAt_def evenStore_def fileReadSeeker_def headerFile_def)
  have A0: "calcDiffAdjustBitcoin noHorizon (parseHeaderAt (headerFile evenHeader 4033) 2016)
      (evenHeader 4031) regtestChain = Returns 0"
    using misaligned_header by (rule A_zero)
  have L: "LTCDiff noHorizon (evenStore 4033) 0 4032 0 regtestChain = Returns (0, None)"
    by (simp add: LTCDiff_reads [OF e r1 r2 r3] epochLengthOf_regtest rem32_values r4 A0)
  have "calcDiffAdjustBitcoin noHorizon (evenHeader 2016) (evenHeader 4031) regtestChain
      = Returns 0x1d03fffc"
    unfolding noHorizon_def using clamped_even(3) by (rule A_fourfold) (simp add: evenHeader_fields)
  with L r4 misaligned_header show ?thesis by simp
qed

section \<open>Properties of algorithm E and of the error returns\<close>

lemma small_word_zero:
  fixes x :: int
  assumes "0 \<le> x" "x < 12"
  shows "((word_of_int x :: int32) = 0) = (x = 0)"
proof
  assume "(word_of_int x :: int32) = 0"
  then have d: "4294967296 dvd x" by (simp add: word_of_int_eq_0_iff)
  show "x = 0"
  proof (rule ccontr)
    assume "x \<noteq> 0"
    with assms have "0 < x" by simp
    with d have "4294967296 \<le> x" by (rule zdvd_imp_le)
    with assms show False by simp
  qed
next
  assume "x = 0"
  then show "(word_of_int x :: int32) = 0" by simp
qed

lemma rem32_12_nonneg:
  assumes "0 \<le> sint height"
  shows "(rem32 height 12 = 0) = (sint height mod 12 = 0)"
proof -
  have s: "sint height smod sint (12 :: int32) = sint height mod 12"
    using assms by (simp add: signed_modulo_int_def sgn_if)
  have "0 \<le> sint height mod 12" "sint height mod 12 < 12" by simp_all
  then have "((word_of_int (sint height mod 12) :: int32) = 0) = (sint height mod 12 = 0)"
    by (rule small_word_zero)
  then show ?thesis by (simp only: rem32_def s)
qed



lemma readHeaderAt_Inl:
  "readHeaderAt rs r off = Inl e \<longleftrightarrow>
     Seek rs r off = Inl e \<or> (\<exists>r'. Seek rs r off = Inr r' \<and> Deserialize rs r' = Inl e)"
  by (auto simp: readHeaderAt_def split: sum.splits)

lemma BTCDiff_error:
  assumes "BTCDiff fl rs r height startheight p = Returns (b, Some e)"
  shows "b = 0 \<and> (\<exists>s off. readHeaderAt rs s off = Inl e)"
  using assms
  by (auto simp: BTCDiff_def Let_def split: if_splits sum.splits prod.splits exec.splits)

lemma LTCDiff_error:
  assumes "LTCDiff fl rs r height startheight p = Returns (b, Some e)"
  shows "b = 0 \<and> (\<exists>s off. readHeaderAt rs s off = Inl e)"
  using assms
  by (auto simp: LTCDiff_def Let_def split: if_splits sum.splits prod.splits exec.splits)

lemma kgwScan_error:
  "kgwScan fl rs startheight p lastSolved st = Returns (Inl e) \<Longrightarrow>
     \<exists>s off. readHeaderAt rs s off = Inl e"
proof (induction fl rs startheight p lastSolved st rule: kgwScan.induct)
  case (1 fl rs startheight p lastSolved st)
  from "1.prems" show ?case
    by (subst (asm) kgwScan.simps)
       (auto simp: Let_def split: if_splits sum.splits prod.splits dest: "1.IH")
qed

lemma calcDiffAdjustKGW_error:
  assumes "calcDiffAdjustKGW fl rs r height startheight p = Returns (b, Some e)"
  shows "b = 0 \<and> (\<exists>s off. readHeaderAt rs s off = Inl e)"
  using assms
  by (auto simp: calcDiffAdjustKGW_def Let_def
      split: if_splits sum.splits prod.splits exec.splits dest: kgwScan_error)

lemma VTCTestDiff_error:
  assumes "VTCTestDiff fl rs r height startheight p = Returns (b, Some e)"
  shows "b = 0 \<and> (\<exists>s off. readHeaderAt rs s off = Inl e)"
  using assms
  by (auto simp: VTCTestDiff_def Let_def
      split: if_splits sum.splits prod.splits dest: LTCDiff_error calcDiffAdjustKGW_error)

lemma kgwScan_read_fails:
  assumes "currentHeight st \<noteq> 1" "idx st \<le> maxBlocks" "idx st \<noteq> 0"
    and "\<not> (minBlocks \<le> blocksScanned (kgwBody fl p lastSolved st) \<and>
            horizonReached fl (blocksScanned (kgwBody fl p lastSolved st))
              (actualRate (kgwBody fl p lastSolved st)) (targetRate (kgwBody fl p lastSolved st)))"
    and "\<not> currentHeight st <s 1"
    and "readHeaderAt rs (reader st) (sint (80 * (currentHeight st - 1 - startheight))) = Inl e"
  shows "kgwScan fl rs startheight p lastSolved st = Returns (Inl e)"
  using assms by (subst kgwScan.simps) (simp add: Let_def)

text \<open>
  C8. An error returned by any of the four functions comes with the bits 0 and
  is the error of a seek or of a deserialization; and each read of a function
  that fails (the seek, or the deserialization after it) ends the call with
  exactly that error: the reads of \<^verbatim>\<open>BTCDiff\<close> and \<^verbatim>\<open>LTCDiff\<close> in their order,
  the first read of the gravity well, every read inside its scan, and the read
  of \<^verbatim>\<open>VTCTestDiff\<close>.
\<close>

theorem read_errors_propagate:
  "(readHeaderAt rs r off = Inl e \<longleftrightarrow>
      Seek rs r off = Inl e \<or> (\<exists>r'. Seek rs r off = Inr r' \<and> Deserialize rs r' = Inl e)) \<and>
   (BTCDiff fl rs r height startheight p = Returns (b, Some e) \<longrightarrow>
      b = 0 \<and> (\<exists>s off. readHeaderAt rs s off = Inl e)) \<and>
   (LTCDiff fl rs r height startheight p = Returns (b, Some e) \<longrightarrow>
      b = 0 \<and> (\<exists>s off. readHeaderAt rs s off = Inl e)) \<and>
   (calcDiffAdjustKGW fl rs r height startheight p = Returns (b, Some e) \<longrightarrow>
      b = 0 \<and> (\<exists>s off. readHeaderAt rs s off = Inl e)) \<and>
   (VTCTestDiff fl rs r height startheight p = Returns (b, Some e) \<longrightarrow>
      b = 0 \<and> (\<exists>s off. readHeaderAt rs s off = Inl e)) \<and>
   (TargetTimePerBlock p \<noteq> 0 \<and>
    readHeaderAt rs r (sint (80 * (height - startheight - 1))) = Inl e \<longrightarrow>
      BTCDiff fl rs r height startheight p = Returns (0, Some e) \<and>
      LTCDiff fl rs r height startheight p = Returns (0, Some e)) \<and>
   (TargetTimePerBlock p \<noteq> 0 \<and>
    readHeaderAt rs r (sint (80 * (height - startheight - 1))) = Inr (prev, r1) \<and>
    readHeaderAt rs r1 (sint (80 * (height - startheight))) = Inl e \<longrightarrow>
      BTCDiff fl rs r height startheight p = Returns (0, Some e) \<and>
      LTCDiff fl rs r height startheight p = Returns (0, Some e)) \<and>
   (epochLengthOf p \<noteq> 0 \<and>
    readHeaderAt rs r (sint (80 * (height - startheight - 1))) = Inr (prev, r1) \<and>
    readHeaderAt rs r1 (sint (80 * (height - startheight))) = Inr (cur, r2) \<and>
    readHeaderAt rs r2 (sint (80 * (height - startheight - rem32 height (epochLengthOf p))))
      = Inl e \<longrightarrow>
      BTCDiff fl rs r height startheight p = Returns (0, Some e) \<and>
      LTCDiff fl rs r height startheight p = Returns (0, Some e)) \<and>
   (epochLengthOf p \<noteq> 0 \<and> rem32 height (epochLengthOf p) = 0 \<and>
    readHeaderAt rs r (sint (80 * (height - startheight - 1))) = Inr (prev, r1) \<and>
    readHeaderAt rs r1 (sint (80 * (height - startheight))) = Inr (cur, r2) \<and>
    readHeaderAt rs r2 (sint (80 * (height - startheight - rem32 height (epochLengthOf p))))
      = Inr (epochStart, r3) \<and>
    readHeaderAt rs r3 (if height = epochLengthOf p then 0
                        else sint (height - startheight - epochLengthOf p)) = Inl e \<longrightarrow>
      LTCDiff fl rs r height startheight p = Returns (0, Some e)) \<and>
   (minBlocks \<le> sint (height - 1) \<and>
    readHeaderAt rs r (sint (80 * (height - startheight - 1))) = Inl e \<longrightarrow>
      calcDiffAdjustKGW fl rs r height startheight p = Returns (0, Some e)) \<and>
   (currentHeight st \<noteq> 1 \<and> idx st \<le> maxBlocks \<and> idx st \<noteq> 0 \<and>
    \<not> (minBlocks \<le> blocksScanned (kgwBody fl p lastSolved st) \<and>
        horizonReached fl (blocksScanned (kgwBody fl p lastSolved st))
          (actualRate (kgwBody fl p lastSolved st)) (targetRate (kgwBody fl p lastSolved st))) \<and>
    \<not> currentHeight st <s 1 \<and>
    readHeaderAt rs (reader st) (sint (80 * (currentHeight st - 1 - startheight))) = Inl e \<longrightarrow>
      kgwScan fl rs startheight p lastSolved st = Returns (Inl e)) \<and>
   (minBlocks \<le> sint (height - 1) \<and>
    readHeaderAt rs r (sint (80 * (height - startheight - 1))) = Inr (block, r1) \<and>
    kgwScan fl rs startheight p block
      \<lparr>reader = r1, currentBlock = block, currentHeight = height - 1, idx = 1,
       blocksScanned = 0, difficultyAverage = 0, previousDifficultyAverage = 0,
       actualRate = 0, targetRate = 0\<rparr> = Returns (Inl e) \<longrightarrow>
      calcDiffAdjustKGW fl rs r height startheight p = Returns (0, Some e)) \<and>
   (2116 \<le> sint height \<and> sint height mod 12 \<noteq> 0 \<and>
    readHeaderAt rs r (sint (80 * (height - startheight - 1))) = Inl e \<longrightarrow>
      VTCTestDiff fl rs r height startheight p = Returns (0, Some e))"
proof -
  have e0: "TargetTimePerBlock p \<noteq> 0" if "epochLengthOf p \<noteq> 0"
    using that epochLengthOf_zero by blast
  have k: "height - startheight - 1 = height - 1 - startheight" by simp
  have lt: "height <s 2116 \<longleftrightarrow> sint height < 2116" by (simp add: word_sless_alt)
  show ?thesis
    apply (intro conjI)
    subgoal by (rule readHeaderAt_Inl)
    subgoal by (intro impI) (erule BTCDiff_error)
    subgoal by (intro impI) (erule LTCDiff_error)
    subgoal by (intro impI) (erule calcDiffAdjustKGW_error)
    subgoal by (intro impI) (erule VTCTestDiff_error)
    subgoal by (simp add: BTCDiff_def LTCDiff_def Let_def)
    subgoal by (simp add: BTCDiff_def LTCDiff_def Let_def)
    subgoal by (simp add: BTCDiff_def LTCDiff_def Let_def e0)
    subgoal
    proof (intro impI, elim conjE)
      assume a: "epochLengthOf p \<noteq> 0" "rem32 height (epochLengthOf p) = 0"
        "readHeaderAt rs r (sint (80 * (height - startheight - 1))) = Inr (prev, r1)"
        "readHeaderAt rs r1 (sint (80 * (height - startheight))) = Inr (cur, r2)"
        "readHeaderAt rs r2 (sint (80 * (height - startheight - rem32 height (epochLengthOf p))))
           = Inr (epochStart, r3)"
        "readHeaderAt rs r3 (if height = epochLengthOf p then 0
                        else sint (height - startheight - epochLengthOf p)) = Inl e"
      show "LTCDiff fl rs r height startheight p = Returns (0, Some e)"
        unfolding LTCDiff_reads [OF a(1,3,4,5)] by (simp only: a(2) a(6) sum.case) simp
    qed
    subgoal by (simp add: calcDiffAdjustKGW_def Let_def k)
    subgoal by (intro impI, elim conjE) (rule kgwScan_read_fails)
    subgoal by (simp add: calcDiffAdjustKGW_def Let_def k)
    subgoal using rem32_12_nonneg [of height] by (simp add: VTCTestDiff_def Let_def lt)
    done
qed

lemma read_evenStore_fails:
  "int n \<le> k \<Longrightarrow> readHeaderAt (evenStore n) pos (80 * k) = Inl IOError"
  "k < 0 \<Longrightarrow> readHeaderAt (evenStore n) pos k = Inl IOError"
  by (simp_all add: readHeaderAt_def evenStore_def fileReadSeeker_def headerFile_def)

lemma kgwScan_aborts:
  "kgwScan noHorizon (evenStore 4) 197 regtestChain (evenHeader 2)
     \<lparr>reader = 240, currentBlock = evenHeader 2, currentHeight = 200 - 1, idx = 1,
      blocksScanned = 0, difficultyAverage = 0, previousDifficultyAverage = 0,
      actualRate = 0, targetRate = 0\<rparr> = Returns (Inl IOError)"
proof -
  have r1: "readHeaderAt (evenStore 4) pos 80 = Inr (evenHeader 1, 160)" for pos
    using read_evenStore [of 1 4 pos] by simp
  have r0: "readHeaderAt (evenStore 4) pos 0 = Inr (evenHeader 0, 80)" for pos
    using read_evenStore [of 0 4 pos] by simp
  have rf: "readHeaderAt (evenStore 4) pos (- 80) = Inl IOError" for pos
    by (rule read_evenStore_fails) simp
  show ?thesis
    apply (subst kgwScan.simps)
    apply (simp add: kgwBody_def Let_def minBlocks_def maxBlocks_def word_sless_alt Unix_def evenHeader_fields r1)
    apply (subst kgwScan.simps)
    apply (simp add: kgwBody_def Let_def minBlocks_def maxBlocks_def word_sless_alt Unix_def evenHeader_fields r0)
    apply (subst kgwScan.simps)
    apply (simp add: kgwBody_def Let_def minBlocks_def maxBlocks_def word_sless_alt Unix_def evenHeader_fields rf)
    done
qed

theorem read_errors_propagate_witness:
  "readHeaderAt (evenStore 10) 0 (sint (80 * (2016 - 0 - 1 :: int32))) = Inl IOError \<and>
   BTCDiff noHorizon (evenStore 10) 0 2016 0 regtestChain = Returns (0, Some IOError) \<and>
   LTCDiff noHorizon (evenStore 10) 0 2016 0 regtestChain = Returns (0, Some IOError) \<and>
   readHeaderAt (evenStore 4) 0 (sint (80 * (200 - 197 - 1 :: int32))) = Inr (evenHeader 2, 240) \<and>
   calcDiffAdjustKGW noHorizon (evenStore 4) 0 200 197 regtestChain = Returns (0, Some IOError) \<and>
   readHeaderAt (evenStore 10) 0 (sint (80 * (2401 - 0 - 1 :: int32))) = Inl IOError \<and>
   VTCTestDiff noHorizon (evenStore 10) 0 2401 0 regtestChain = Returns (0, Some IOError)"
proof -
  have f1: "readHeaderAt (evenStore 10) 0 (sint (80 * (2016 - 0 - 1 :: int32))) = Inl IOError"
    using read_evenStore_fails(1) [of 10 2015 0] by simp
  have t: "TargetTimePerBlock regtestChain \<noteq> 0" by (simp add: regtest_fields)
  have f2: "readHeaderAt (evenStore 4) 0 (sint (80 * (200 - 197 - 1 :: int32))) = Inr (evenHeader 2, 240)"
    using read_evenStore [of 2 4 0] by simp
  have m: "minBlocks \<le> sint (200 - 1 :: int32)" by (simp add: minBlocks_def)
  have f3: "readHeaderAt (evenStore 10) 0 (sint (80 * (2401 - 0 - 1 :: int32))) = Inl IOError"
    using read_evenStore_fails(1) [of 10 2400 0] by simp
  have h: "2116 \<le> sint (2401 :: int32)" "sint (2401 :: int32) mod 12 \<noteq> 0" by simp_all
  note T = read_errors_propagate [where fl = noHorizon and p = regtestChain and e = IOError]
  note c2 = conjunct2
  have a: "BTCDiff noHorizon (evenStore 10) 0 2016 0 regtestChain = Returns (0, Some IOError) \<and>
      LTCDiff noHorizon (evenStore 10) 0 2016 0 regtestChain = Returns (0, Some IOError)"
    using T [where rs = "evenStore 10" and r = 0 and height = 2016 and startheight = 0,
        THEN c2, THEN c2, THEN c2, THEN c2, THEN c2, THEN conjunct1, THEN mp, OF conjI [OF t f1]] .
  have b: "calcDiffAdjustKGW noHorizon (evenStore 4) 0 200 197 regtestChain = Returns (0, Some IOError)"
    using T [where rs = "evenStore 4" and r = 0 and height = 200 and startheight = 197
        and block = "evenHeader 2" and ?r1.0 = 240,
        THEN c2, THEN c2, THEN c2, THEN c2, THEN c2, THEN c2, THEN c2, THEN c2, THEN c2, THEN c2,
        THEN c2, THEN conjunct1, THEN mp, OF conjI [OF m conjI [OF f2 kgwScan_aborts]]] .
  have c: "VTCTestDiff noHorizon (evenStore 10) 0 2401 0 regtestChain = Returns (0, Some IOError)"
    using T [where rs = "evenStore 10" and r = 0 and height = 2401 and startheight = 0,
        THEN c2, THEN c2, THEN c2, THEN c2, THEN c2, THEN c2, THEN c2, THEN c2, THEN c2, THEN c2,
        THEN c2, THEN c2, THEN mp, OF conjI [OF h(1) conjI [OF h(2) f3]]] .
  from a b c f1 f2 f3 show ?thesis by (intro conjI) (erule conjunct1 conjunct2 | assumption)+
qed

section \<open>The range of the results\<close>

























































end
